theory Spec2Isabelle
  imports Main "HOL-Library.Sublist"
begin

section \<open>Render trees\<close>

text \<open>
  A component is a function from its props (and, for Tooltip, its state slot) to a render
  tree. The tree below is what a JSX expression denotes: text, or an element with a tag,
  its attributes in the order written, and its children. A child written
  \<^verbatim>\<open>{cond && <x/>}\<close> contributes one node when \<^verbatim>\<open>cond\<close> is truthy and none otherwise.

  Callbacks passed in props are opaque values of a type \<open>'f\<close>. An event handler placed
  in the tree is one of the three function expressions the components write.
\<close>

datatype 'f handler =
    Prop 'f                \<comment> \<open>\<^verbatim>\<open>onClick={onClick}\<close>: the callback prop itself\<close>
  | PropTargetValue 'f     \<comment> \<open>\<^verbatim>\<open>(e) => onChange(e.target.value)\<close>\<close>
  | SetIsVisible bool      \<comment> \<open>\<^verbatim>\<open>() => setIsVisible(b)\<close>\<close>

datatype 'f attr_value =
    Str string
  | Flag bool
  | Num int
  | Listener "'f handler"
  | Undefined

datatype 'f node =
    Text string
  | Element string "(string \<times> 'f attr_value) list" "'f node list"

fun tag_of :: "'f node \<Rightarrow> string" where
  "tag_of (Text s) = []"
| "tag_of (Element t as cs) = t"

fun attrs_of :: "'f node \<Rightarrow> (string \<times> 'f attr_value) list" where
  "attrs_of (Text s) = []"
| "attrs_of (Element t as cs) = as"

fun children_of :: "'f node \<Rightarrow> 'f node list" where
  "children_of (Text s) = []"
| "children_of (Element t as cs) = cs"

definition attr :: "string \<Rightarrow> 'f node \<Rightarrow> 'f attr_value option" where
  "attr name el = map_of (attrs_of el) name"

text \<open>The class string of an element; the empty string when it has none.\<close>

definition class_of :: "'f node \<Rightarrow> string" where
  "class_of el = (case attr ''className'' el of Some (Str s) \<Rightarrow> s | _ \<Rightarrow> [])"

subsection \<open>JavaScript values\<close>

text \<open>
  An optional prop is an \<open>option\<close>; \<open>None\<close> is \<^verbatim>\<open>undefined\<close>. A destructuring default
  \<^verbatim>\<open>{x = d}\<close> replaces \<^verbatim>\<open>undefined\<close> only. An optional string is truthy when it is
  present and not the empty string.
\<close>

definition dflt :: "'a \<Rightarrow> 'a option \<Rightarrow> 'a" where
  "dflt d x = (case x of None \<Rightarrow> d | Some v \<Rightarrow> v)"

definition truthy :: "string option \<Rightarrow> bool" where
  "truthy x = (case x of None \<Rightarrow> False | Some s \<Rightarrow> s \<noteq> [])"

definition opt_str :: "string option \<Rightarrow> 'f attr_value" where
  "opt_str x = (case x of None \<Rightarrow> Undefined | Some s \<Rightarrow> Str s)"

definition opt_listener :: "'f option \<Rightarrow> 'f attr_value" where
  "opt_listener x = (case x of None \<Rightarrow> Undefined | Some f \<Rightarrow> Listener (Prop f))"

definition nl :: string where
  "nl = [CHR 0x0A]"

definition sp :: "nat \<Rightarrow> string" where
  "sp n = replicate n (CHR '' '')"

datatype size3 = small | medium | large

subsection \<open>Event dispatch by the host\<close>

text \<open>
  The host framework, not the repository, delivers events. Its part is modelled here as far
  as the claims need it: an event on an element calls the listener registered under the
  event's prop name, and a disabled form control (button, input, select, textarea) gets no
  click or mouse-enter listener call. What a listener call does is recorded as an effect:
  a callback prop invoked with its arguments, or the state setter called with a value.
\<close>

datatype event = Click | MouseEnter | MouseLeave | Change string

datatype 'f effect = Invoke 'f "string list" | SetState bool

fun event_prop :: "event \<Rightarrow> string" where
  "event_prop Click = ''onClick''"
| "event_prop MouseEnter = ''onMouseEnter''"
| "event_prop MouseLeave = ''onMouseLeave''"
| "event_prop (Change v) = ''onChange''"

fun target_value :: "event \<Rightarrow> string" where
  "target_value (Change v) = v"
| "target_value ev = []"

fun run_handler :: "'f handler \<Rightarrow> event \<Rightarrow> 'f effect" where
  "run_handler (Prop f) ev = Invoke f []"
| "run_handler (PropTargetValue f) ev = Invoke f [target_value ev]"
| "run_handler (SetIsVisible b) ev = SetState b"

definition isInteractive :: "string \<Rightarrow> bool" where
  "isInteractive t = (t = ''button'' \<or> t = ''input'' \<or> t = ''select'' \<or> t = ''textarea'')"

definition shouldPreventMouseEvent :: "event \<Rightarrow> 'f node \<Rightarrow> bool" where
  "shouldPreventMouseEvent ev el =
     ((ev = Click \<or> ev = MouseEnter) \<and> attr ''disabled'' el = Some (Flag True)
        \<and> isInteractive (tag_of el))"

definition dispatch :: "event \<Rightarrow> 'f node \<Rightarrow> 'f effect list" where
  "dispatch ev el =
     (if shouldPreventMouseEvent ev el then []
      else case attr (event_prop ev) el of
             Some (Listener h) \<Rightarrow> [run_handler h ev]
           | _ \<Rightarrow> [])"

section \<open>Button\<close>

datatype button_variant = btn_primary | btn_secondary | btn_danger | btn_success

datatype button_type = ty_button | ty_submit | ty_reset

fun button_type_str :: "button_type \<Rightarrow> string" where
  "button_type_str ty_button = ''button''"
| "button_type_str ty_submit = ''submit''"
| "button_type_str ty_reset = ''reset''"

record 'f ButtonProps =
  button_children :: "'f node list"
  button_variant :: "button_variant option"
  button_size :: "size3 option"
  button_disabled :: "bool option"
  button_onClick :: "'f option"
  button_type :: "button_type option"
  button_className :: "string option"
  button_loading :: "bool option"

definition Button_baseClasses :: string where
  "Button_baseClasses =
     ''font-medium rounded-lg transition-all duration-200 focus:outline-none focus:ring-2 focus:ring-offset-2''"

fun Button_variantClasses :: "button_variant \<Rightarrow> string" where
  "Button_variantClasses btn_primary = ''bg-blue-600 text-white hover:bg-blue-700 focus:ring-blue-500''"
| "Button_variantClasses btn_secondary = ''bg-gray-600 text-white hover:bg-gray-700 focus:ring-gray-500''"
| "Button_variantClasses btn_danger = ''bg-red-600 text-white hover:bg-red-700 focus:ring-red-500''"
| "Button_variantClasses btn_success = ''bg-green-600 text-white hover:bg-green-700 focus:ring-green-500''"

fun Button_sizeClasses :: "size3 \<Rightarrow> string" where
  "Button_sizeClasses small = ''px-3 py-1.5 text-sm''"
| "Button_sizeClasses medium = ''px-4 py-2 text-base''"
| "Button_sizeClasses large = ''px-6 py-3 text-lg''"

definition Button_disabledClasses :: "bool \<Rightarrow> bool \<Rightarrow> string" where
  "Button_disabledClasses disabled loading =
     (if disabled \<or> loading then ''opacity-50 cursor-not-allowed'' else ''cursor-pointer'')"

definition Button_loadingContent :: "'f node" where
  "Button_loadingContent =
     Element ''div'' [(''className'', Str ''flex items-center justify-center'')]
       [Element ''div''
          [(''className'', Str ''animate-spin rounded-full h-4 w-4 border-b-2 border-white mr-2'')] [],
        Text ''Loading...'']"

definition Button :: "'f ButtonProps \<Rightarrow> 'f node" where
  "Button p =
     (let children = button_children p;
          variant = dflt btn_primary (button_variant p);
          size = dflt medium (button_size p);
          disabled = dflt False (button_disabled p);
          onClick = button_onClick p;
          type = dflt ty_button (button_type p);
          className = dflt [] (button_className p);
          loading = dflt False (button_loading p)
      in Element ''button''
           [(''type'', Str (button_type_str type)),
            (''disabled'', Flag (disabled \<or> loading)),
            (''onClick'', opt_listener onClick),
            (''className'', Str (Button_baseClasses @ '' '' @ Button_variantClasses variant @ '' ''
                @ Button_sizeClasses size @ '' '' @ Button_disabledClasses disabled loading @ '' ''
                @ className))]
           (if loading then [Button_loadingContent] else children))"

section \<open>Input\<close>

text \<open>
  \<^verbatim>\<open>a || b\<close> on an optional string and a string, and the JSX child
  \<^verbatim>\<open>{s && f(s)}\<close> for an optional string \<^verbatim>\<open>s\<close>.
\<close>

definition str_or :: "string option \<Rightarrow> string \<Rightarrow> string" where
  "str_or x d = (case x of None \<Rightarrow> d | Some s \<Rightarrow> if s = [] then d else s)"

definition when_str :: "string option \<Rightarrow> (string \<Rightarrow> 'a) \<Rightarrow> 'a list" where
  "when_str x f = (case x of None \<Rightarrow> [] | Some s \<Rightarrow> if s = [] then [] else [f s])"

definition when_bool :: "bool \<Rightarrow> 'a \<Rightarrow> 'a list" where
  "when_bool b x = (if b then [x] else [])"

text \<open>
  The JSX child \<^verbatim>\<open>{s}\<close> for a string \<^verbatim>\<open>s\<close>: a text node, and nothing when \<^verbatim>\<open>s\<close>
  is the empty string, which renders no node.
\<close>

definition text_child :: "string \<Rightarrow> 'f node list" where
  "text_child s = (if s = [] then [] else [Text s])"

datatype input_type = in_text | in_email | in_password | in_number | in_tel

fun input_type_str :: "input_type \<Rightarrow> string" where
  "input_type_str in_text = ''text''"
| "input_type_str in_email = ''email''"
| "input_type_str in_password = ''password''"
| "input_type_str in_number = ''number''"
| "input_type_str in_tel = ''tel''"

record 'f InputProps =
  input_label :: "string option"
  input_placeholder :: "string option"
  input_value :: string
  input_onChange :: 'f
  input_type :: "input_type option"
  input_error :: "string option"
  input_disabled :: "bool option"
  input_required :: "bool option"
  input_className :: "string option"
  input_id :: "string option"

text \<open>
  The render reads \<^verbatim>\<open>Math.random()\<close>. The second argument \<open>rnd\<close> is the string
  \<^verbatim>\<open>Math.random().toString(36).substr(2, 9)\<close> of this render pass: the draw is an input of
  the render, not a function of the props.
\<close>

definition Input :: "'f InputProps \<Rightarrow> string \<Rightarrow> 'f node" where
  "Input p rnd =
     (let label = input_label p;
          placeholder = input_placeholder p;
          val = input_value p;
          onChange = input_onChange p;
          type = dflt in_text (input_type p);
          error = input_error p;
          disabled = dflt False (input_disabled p);
          required = dflt False (input_required p);
          className = dflt [] (input_className p);
          inputId = str_or (input_id p) (''input-'' @ rnd)
      in Element ''div'' [(''className'', Str (''mb-4 '' @ className))]
           (when_str label (\<lambda>l.
              Element ''label''
                [(''htmlFor'', Str inputId),
                 (''className'', Str ''block text-sm font-medium text-gray-700 mb-1'')]
                (Text l #
                 when_bool required
                   (Element ''span'' [(''className'', Str ''text-red-500 ml-1'')] [Text ''*''])))
            @ [Element ''input''
                 [(''id'', Str inputId),
                  (''type'', Str (input_type_str type)),
                  (''value'', Str val),
                  (''onChange'', Listener (PropTargetValue onChange)),
                  (''placeholder'', opt_str placeholder),
                  (''disabled'', Flag disabled),
                  (''required'', Flag required),
                  (''className'', Str (nl @ sp 10
                     @ ''w-full px-3 py-2 border rounded-md shadow-sm focus:outline-none focus:ring-2 focus:ring-blue-500 focus:border-blue-500''
                     @ nl @ sp 10 @ (if truthy error then ''border-red-300'' else ''border-gray-300'')
                     @ nl @ sp 10 @ (if disabled then ''bg-gray-100 cursor-not-allowed'' else ''bg-white'')
                     @ nl @ sp 8))]
                 []]
            @ when_str error (\<lambda>e.
                Element ''p'' [(''className'', Str ''mt-1 text-sm text-red-600'')] [Text e])))"

text \<open>The \<^verbatim>\<open><input>\<close> element of a rendered Input: the first child with that tag.\<close>

definition Input_field :: "'f node \<Rightarrow> 'f node option" where
  "Input_field root = find (\<lambda>c. tag_of c = ''input'') (children_of root)"

section \<open>Card\<close>

record 'f CardProps =
  card_children :: "'f node list"
  card_title :: "string option"
  card_subtitle :: "string option"
  card_className :: "string option"
  card_onClick :: "'f option"
  card_hoverable :: "bool option"
  card_padding :: "size3 option"

fun Card_paddingClasses :: "size3 \<Rightarrow> string" where
  "Card_paddingClasses small = ''p-3''"
| "Card_paddingClasses medium = ''p-6''"
| "Card_paddingClasses large = ''p-8''"

definition Card_header :: "string option \<Rightarrow> string option \<Rightarrow> 'f node" where
  "Card_header title subtitle =
     Element ''div'' [(''className'', Str ''mb-4'')]
       (when_str title (\<lambda>t.
          Element ''h3'' [(''className'', Str ''text-lg font-semibold text-gray-900 mb-1'')] [Text t])
        @ when_str subtitle (\<lambda>s.
          Element ''p'' [(''className'', Str ''text-sm text-gray-600'')] [Text s]))"

definition Card :: "'f CardProps \<Rightarrow> 'f node" where
  "Card p =
     (let children = card_children p;
          title = card_title p;
          subtitle = card_subtitle p;
          className = dflt [] (card_className p);
          onClick = card_onClick p;
          hoverable = dflt False (card_hoverable p);
          padding = dflt medium (card_padding p);
          hoverClasses = (if hoverable then ''hover:shadow-lg transition-shadow duration-200'' else []);
          clickableClasses = (if onClick \<noteq> None then ''cursor-pointer'' else [])
      in Element ''div''
           [(''onClick'', opt_listener onClick),
            (''className'', Str (nl @ sp 8 @ ''bg-white rounded-lg shadow-md border border-gray-200''
               @ nl @ sp 8 @ Card_paddingClasses padding
               @ nl @ sp 8 @ hoverClasses
               @ nl @ sp 8 @ clickableClasses
               @ nl @ sp 8 @ className
               @ nl @ sp 6))]
           (when_bool (truthy title \<or> truthy subtitle) (Card_header title subtitle) @ children))"

text \<open>
  A rendered Card has a header block when its children are the header followed by the
  caller's children; without one they are the caller's children alone.
\<close>

definition Card_has_header :: "'f CardProps \<Rightarrow> bool" where
  "Card_has_header p =
     (children_of (Card p) = Card_header (card_title p) (card_subtitle p) # card_children p)"

section \<open>Modal\<close>

record 'f ModalProps =
  modal_isOpen :: bool
  modal_onClose :: 'f
  modal_title :: "string option"
  modal_children :: "'f node list"
  modal_size :: "size3 option"
  modal_showCloseButton :: "bool option"

fun Modal_sizeClasses :: "size3 \<Rightarrow> string" where
  "Modal_sizeClasses small = ''max-w-md''"
| "Modal_sizeClasses medium = ''max-w-lg''"
| "Modal_sizeClasses large = ''max-w-2xl''"

definition Modal_closeButton :: "'f \<Rightarrow> 'f node" where
  "Modal_closeButton onClose =
     Element ''button''
       [(''onClick'', Listener (Prop onClose)),
        (''className'', Str ''text-gray-400 hover:text-gray-600 transition-colors'')]
       [Element ''svg''
          [(''className'', Str ''w-6 h-6''), (''fill'', Str ''none''),
           (''stroke'', Str ''currentColor''), (''viewBox'', Str ''0 0 24 24'')]
          [Element ''path''
             [(''strokeLinecap'', Str ''round''), (''strokeLinejoin'', Str ''round''),
              (''strokeWidth'', Num 2), (''d'', Str ''M6 18L18 6M6 6l12 12'')]
             []]]"

definition Modal_header :: "string option \<Rightarrow> bool \<Rightarrow> 'f \<Rightarrow> 'f node" where
  "Modal_header title showCloseButton onClose =
     Element ''div'' [(''className'', Str ''flex items-center justify-between p-6 border-b border-gray-200'')]
       (when_str title (\<lambda>t.
          Element ''h3'' [(''className'', Str ''text-lg font-semibold text-gray-900'')] [Text t])
        @ when_bool showCloseButton (Modal_closeButton onClose))"

text \<open>The result is \<open>None\<close> where the component returns \<^verbatim>\<open>null\<close>.\<close>

definition Modal :: "'f ModalProps \<Rightarrow> 'f node option" where
  "Modal p =
     (let isOpen = modal_isOpen p;
          onClose = modal_onClose p;
          title = modal_title p;
          children = modal_children p;
          size = dflt medium (modal_size p);
          showCloseButton = dflt True (modal_showCloseButton p)
      in if \<not> isOpen then None
         else Some
           (Element ''div'' [(''className'', Str ''fixed inset-0 z-50 overflow-y-auto'')]
              [Element ''div''
                 [(''className'', Str ''fixed inset-0 bg-black bg-opacity-50 transition-opacity''),
                  (''onClick'', Listener (Prop onClose))]
                 [],
               Element ''div'' [(''className'', Str ''flex min-h-full items-center justify-center p-4'')]
                 [Element ''div''
                    [(''className'', Str (''relative bg-white rounded-lg shadow-xl w-full ''
                        @ Modal_sizeClasses size))]
                    (when_bool (truthy title \<or> showCloseButton)
                       (Modal_header title showCloseButton onClose)
                     @ [Element ''div'' [(''className'', Str ''p-6'')] children])]]))"

text \<open>
  The children of the content panel of an open Modal: the header block, when there is one,
  comes before the \<^verbatim>\<open>p-6\<close> content block, which is always last.
\<close>

fun Modal_panel_children :: "'f node option \<Rightarrow> 'f node list" where
  "Modal_panel_children (Some (Element t as [backdrop, Element t' as' [panel]])) = children_of panel"
| "Modal_panel_children out = []"

definition Modal_content :: "'f node list \<Rightarrow> 'f node" where
  "Modal_content children = Element ''div'' [(''className'', Str ''p-6'')] children"

definition Modal_has_header :: "'f ModalProps \<Rightarrow> bool" where
  "Modal_has_header p =
     (Modal_panel_children (Modal p)
        = [Modal_header (modal_title p) (dflt True (modal_showCloseButton p)) (modal_onClose p),
           Modal_content (modal_children p)])"

section \<open>Badge\<close>

datatype badge_variant = bdg_default | bdg_success | bdg_warning | bdg_danger | bdg_info

record 'f BadgeProps =
  badge_children :: "'f node list"
  badge_variant :: "badge_variant option"
  badge_size :: "size3 option"
  badge_className :: "string option"

definition Badge_baseClasses :: string where
  "Badge_baseClasses = ''inline-flex items-center font-medium rounded-full''"

fun Badge_variantClasses :: "badge_variant \<Rightarrow> string" where
  "Badge_variantClasses bdg_default = ''bg-gray-100 text-gray-800''"
| "Badge_variantClasses bdg_success = ''bg-green-100 text-green-800''"
| "Badge_variantClasses bdg_warning = ''bg-yellow-100 text-yellow-800''"
| "Badge_variantClasses bdg_danger = ''bg-red-100 text-red-800''"
| "Badge_variantClasses bdg_info = ''bg-blue-100 text-blue-800''"

fun Badge_sizeClasses :: "size3 \<Rightarrow> string" where
  "Badge_sizeClasses small = ''px-2 py-0.5 text-xs''"
| "Badge_sizeClasses medium = ''px-2.5 py-0.5 text-sm''"
| "Badge_sizeClasses large = ''px-3 py-1 text-base''"

definition Badge :: "'f BadgeProps \<Rightarrow> 'f node" where
  "Badge p =
     (let children = badge_children p;
          variant = dflt bdg_default (badge_variant p);
          size = dflt medium (badge_size p);
          className = dflt [] (badge_className p)
      in Element ''span''
           [(''className'', Str (Badge_baseClasses @ '' '' @ Badge_variantClasses variant @ '' ''
               @ Badge_sizeClasses size @ '' '' @ className))]
           children)"

section \<open>Alert\<close>

datatype alert_type = alert_info | alert_success | alert_warning | alert_error

record 'f AlertProps =
  alert_children :: "'f node list"
  alert_type :: "alert_type option"
  alert_title :: "string option"
  alert_onClose :: "'f option"
  alert_className :: "string option"

fun Alert_typeClasses :: "alert_type \<Rightarrow> string" where
  "Alert_typeClasses alert_info = ''bg-blue-50 border-blue-200 text-blue-800''"
| "Alert_typeClasses alert_success = ''bg-green-50 border-green-200 text-green-800''"
| "Alert_typeClasses alert_warning = ''bg-yellow-50 border-yellow-200 text-yellow-800''"
| "Alert_typeClasses alert_error = ''bg-red-50 border-red-200 text-red-800''"

fun Alert_iconClasses :: "alert_type \<Rightarrow> string" where
  "Alert_iconClasses alert_info = ''text-blue-400''"
| "Alert_iconClasses alert_success = ''text-green-400''"
| "Alert_iconClasses alert_warning = ''text-yellow-400''"
| "Alert_iconClasses alert_error = ''text-red-400''"

definition Alert_icon :: "alert_type \<Rightarrow> 'f node" where
  "Alert_icon type =
     Element ''svg''
       [(''className'', Str (''h-5 w-5 '' @ Alert_iconClasses type)),
        (''viewBox'', Str ''0 0 20 20''), (''fill'', Str ''currentColor'')]
       [Element ''path''
          [(''fillRule'', Str ''evenodd''),
           (''d'', Str ''M18 10a8 8 0 11-16 0 8 8 0 0116 0zm-7-4a1 1 0 11-2 0 1 1 0 012 0zM9 9a1 1 0 000 2v3a1 1 0 001 1h1a1 1 0 100-2v-3a1 1 0 00-1-1H9z''),
           (''clipRule'', Str ''evenodd'')]
          []]"

definition Alert_close :: "'f \<Rightarrow> 'f node" where
  "Alert_close onClose =
     Element ''div'' [(''className'', Str ''ml-auto pl-3'')]
       [Element ''button''
          [(''onClick'', Listener (Prop onClose)),
           (''className'', Str ''inline-flex text-gray-400 hover:text-gray-600'')]
          [Element ''svg''
             [(''className'', Str ''h-5 w-5''), (''viewBox'', Str ''0 0 20 20''),
              (''fill'', Str ''currentColor'')]
             [Element ''path''
                [(''fillRule'', Str ''evenodd''),
                 (''d'', Str ''M4.293 4.293a1 1 0 011.414 0L10 8.586l4.293-4.293a1 1 0 111.414 1.414L11.414 10l4.293 4.293a1 1 0 01-1.414 1.414L10 11.414l-4.293 4.293a1 1 0 01-1.414-1.414L8.586 10 4.293 5.707a1 1 0 010-1.414z''),
                 (''clipRule'', Str ''evenodd'')]
                []]]]"

definition Alert_body :: "string option \<Rightarrow> 'f node list \<Rightarrow> 'f node" where
  "Alert_body title children =
     Element ''div'' [(''className'', Str ''ml-3 flex-1'')]
       (when_str title (\<lambda>t. Element ''h3'' [(''className'', Str ''text-sm font-medium'')] [Text t])
        @ [Element ''div'' [(''className'', Str ''text-sm'')] children])"

definition Alert :: "'f AlertProps \<Rightarrow> 'f node" where
  "Alert p =
     (let children = alert_children p;
          type = dflt alert_info (alert_type p);
          title = alert_title p;
          onClose = alert_onClose p;
          className = dflt [] (alert_className p)
      in Element ''div''
           [(''className'', Str (''border rounded-md p-4 '' @ Alert_typeClasses type @ '' '' @ className))]
           [Element ''div'' [(''className'', Str ''flex'')]
              ([Element ''div'' [(''className'', Str ''flex-shrink-0'')] [Alert_icon type],
                Alert_body title children]
               @ (case onClose of None \<Rightarrow> [] | Some f \<Rightarrow> [Alert_close f]))])"

text \<open>
  The row of a rendered Alert holds the icon cell, the body and, last, the close cell when
  there is one.
\<close>

fun Alert_row :: "'f node \<Rightarrow> 'f node list" where
  "Alert_row (Element t as [row]) = children_of row"
| "Alert_row el = []"

definition Alert_rendered_icon :: "'f node \<Rightarrow> 'f node option" where
  "Alert_rendered_icon el =
     (case Alert_row el of
        Element t as [icon] # rest \<Rightarrow> Some icon
      | _ \<Rightarrow> None)"

text \<open>What an icon draws: its path elements, apart from the colour class on the svg.\<close>

definition icon_glyph :: "'f node option \<Rightarrow> 'f node list" where
  "icon_glyph icon = (case icon of None \<Rightarrow> [] | Some svg \<Rightarrow> children_of svg)"

text \<open>The cells of the row after the icon cell and the body.\<close>

definition Alert_close_cells :: "'f node \<Rightarrow> 'f node list" where
  "Alert_close_cells el = drop 2 (Alert_row el)"

definition Alert_has_close :: "'f AlertProps \<Rightarrow> bool" where
  "Alert_has_close p = (Alert_close_cells (Alert p) \<noteq> [])"

section \<open>Spinner\<close>

datatype spinner_color = clr_primary | clr_white | clr_gray

record SpinnerProps =
  spinner_size :: "size3 option"
  spinner_color :: "spinner_color option"
  spinner_className :: "string option"

fun Spinner_sizeClasses :: "size3 \<Rightarrow> string" where
  "Spinner_sizeClasses small = ''h-4 w-4''"
| "Spinner_sizeClasses medium = ''h-6 w-6''"
| "Spinner_sizeClasses large = ''h-8 w-8''"

fun Spinner_colorClasses :: "spinner_color \<Rightarrow> string" where
  "Spinner_colorClasses clr_primary = ''text-blue-600''"
| "Spinner_colorClasses clr_white = ''text-white''"
| "Spinner_colorClasses clr_gray = ''text-gray-600''"

definition Spinner :: "SpinnerProps \<Rightarrow> 'f node" where
  "Spinner p =
     (let size = dflt medium (spinner_size p);
          color = dflt clr_primary (spinner_color p);
          className = dflt [] (spinner_className p)
      in Element ''div''
           [(''className'', Str (''animate-spin rounded-full border-2 border-gray-300 border-t-current ''
               @ Spinner_sizeClasses size @ '' '' @ Spinner_colorClasses color @ '' '' @ className))]
           [])"

section \<open>Tooltip\<close>

datatype tooltip_position = pos_top | pos_bottom | pos_left | pos_right

record 'f TooltipProps =
  tooltip_children :: "'f node list"
  tooltip_content :: string
  tooltip_position :: "tooltip_position option"
  tooltip_className :: "string option"

fun Tooltip_positionClasses :: "tooltip_position \<Rightarrow> string" where
  "Tooltip_positionClasses pos_top = ''bottom-full left-1/2 transform -translate-x-1/2 mb-2''"
| "Tooltip_positionClasses pos_bottom = ''top-full left-1/2 transform -translate-x-1/2 mt-2''"
| "Tooltip_positionClasses pos_left = ''right-full top-1/2 transform -translate-y-1/2 mr-2''"
| "Tooltip_positionClasses pos_right = ''left-full top-1/2 transform -translate-y-1/2 ml-2''"

fun Tooltip_arrowClasses :: "tooltip_position \<Rightarrow> string" where
  "Tooltip_arrowClasses pos_top = ''top-full left-1/2 transform -translate-x-1/2 border-t-gray-900''"
| "Tooltip_arrowClasses pos_bottom = ''bottom-full left-1/2 transform -translate-x-1/2 border-b-gray-900''"
| "Tooltip_arrowClasses pos_left = ''left-full top-1/2 transform -translate-y-1/2 border-l-gray-900''"
| "Tooltip_arrowClasses pos_right = ''right-full top-1/2 transform -translate-y-1/2 border-r-gray-900''"

definition Tooltip_bubble :: "string \<Rightarrow> tooltip_position \<Rightarrow> 'f node" where
  "Tooltip_bubble content position =
     Element ''div'' [(''className'', Str (''absolute z-10 '' @ Tooltip_positionClasses position))]
       [Element ''div''
          [(''className'', Str ''bg-gray-900 text-white text-sm rounded py-1 px-2 whitespace-nowrap'')]
          (text_child content
           @ [Element ''div''
                [(''className'', Str (''absolute w-0 h-0 border-4 border-transparent ''
                    @ Tooltip_arrowClasses position))]
                []])]"

text \<open>
  The state slot \<^verbatim>\<open>isVisible\<close> of \<^verbatim>\<open>useState(false)\<close> is the second argument of the
  render; its initial value is \<open>Tooltip_initial\<close>.
\<close>

definition Tooltip_initial :: bool where
  "Tooltip_initial = False"

definition Tooltip :: "'f TooltipProps \<Rightarrow> bool \<Rightarrow> 'f node" where
  "Tooltip p isVisible =
     (let children = tooltip_children p;
          content = tooltip_content p;
          position = dflt pos_top (tooltip_position p);
          className = dflt [] (tooltip_className p)
      in Element ''div''
           [(''className'', Str (''relative inline-block '' @ className)),
            (''onMouseEnter'', Listener (SetIsVisible True)),
            (''onMouseLeave'', Listener (SetIsVisible False))]
           (children @ when_bool isVisible (Tooltip_bubble content position)))"

text \<open>
  One event on the wrapper: the listener calls made on the current render are applied to
  the state slot, a \<^verbatim>\<open>setIsVisible(b)\<close> call storing \<open>b\<close>.
\<close>

fun apply_effect :: "bool \<Rightarrow> 'f effect \<Rightarrow> bool" where
  "apply_effect s (SetState b) = b"
| "apply_effect s (Invoke f args) = s"

definition Tooltip_on :: "'f TooltipProps \<Rightarrow> event \<Rightarrow> bool \<Rightarrow> bool" where
  "Tooltip_on p ev isVisible = foldl apply_effect isVisible (dispatch ev (Tooltip p isVisible))"

section \<open>One render pass of any component\<close>

text \<open>
  A component instance with its props and state snapshot, and its render pass given the
  random draw of that pass. \<open>None\<close> is the \<^verbatim>\<open>null\<close> of a closed Modal.
\<close>

datatype 'f component =
    C_Button "'f ButtonProps"
  | C_Input "'f InputProps"
  | C_Card "'f CardProps"
  | C_Modal "'f ModalProps"
  | C_Badge "'f BadgeProps"
  | C_Alert "'f AlertProps"
  | C_Spinner SpinnerProps
  | C_Tooltip "'f TooltipProps" bool

fun render :: "'f component \<Rightarrow> string \<Rightarrow> 'f node option" where
  "render (C_Button p) rnd = Some (Button p)"
| "render (C_Input p) rnd = Some (Input p rnd)"
| "render (C_Card p) rnd = Some (Card p)"
| "render (C_Modal p) rnd = Modal p"
| "render (C_Badge p) rnd = Some (Badge p)"
| "render (C_Alert p) rnd = Some (Alert p)"
| "render (C_Spinner p) rnd = Some (Spinner p)"
| "render (C_Tooltip p isVisible) rnd = Some (Tooltip p isVisible)"

text \<open>The components whose render reads the random draw: an Input whose \<^verbatim>\<open>id\<close> is falsy.\<close>

fun reads_random :: "'f component \<Rightarrow> bool" where
  "reads_random (C_Input p) = (\<not> truthy (input_id p))"
| "reads_random c = False"

section \<open>Text of a render tree\<close>

text \<open>The text nodes of a tree, in document order.\<close>

fun texts_of :: "'f node \<Rightarrow> string list" where
  "texts_of (Text s) = [s]"
| "texts_of (Element t as cs) = concat (map texts_of cs)"

section \<open>Properties of Button\<close>

lemma Button_disabled_attr:
  "attr ''disabled'' (Button p)
     = Some (Flag (dflt False (button_disabled p) \<or> dflt False (button_loading p)))"
  by (simp add: Button_def attr_def Let_def)

lemma Button_tag: "tag_of (Button p) = ''button''"
  by (simp add: Button_def Let_def)

lemma Button_onClick_attr: "attr ''onClick'' (Button p) = Some (opt_listener (button_onClick p))"
  by (simp add: Button_def attr_def Let_def)

lemma Button_click_prevented:
  "shouldPreventMouseEvent Click (Button p)
     = (dflt False (button_disabled p) \<or> dflt False (button_loading p))"
  by (simp add: shouldPreventMouseEvent_def Button_disabled_attr Button_tag isInteractive_def)

lemma Button_click_enabled:
  assumes "\<not> dflt False (button_disabled p)" and "\<not> dflt False (button_loading p)"
    and "button_onClick p = Some f"
  shows "dispatch Click (Button p) = [Invoke f []]"
  using assms
  by (simp add: dispatch_def Button_click_prevented Button_onClick_attr opt_listener_def)

text \<open>
  C1. For every Button props record, the \<^verbatim>\<open>disabled\<close> attribute of the rendered control is
  \<^verbatim>\<open>disabled || loading\<close> (each defaulting to false), and when that value is true a click
  on the control invokes no callback.
\<close>

theorem Button_effective_disabled:
  "attr ''disabled'' (Button p)
     = Some (Flag (dflt False (button_disabled p) \<or> dflt False (button_loading p)))
   \<and> (dflt False (button_disabled p) \<or> dflt False (button_loading p)
        \<longrightarrow> dispatch Click (Button p) = [])"
  by (simp add: Button_disabled_attr dispatch_def Button_click_prevented)

theorem Button_effective_disabled_witness:
  "attr ''disabled''
       (Button \<lparr>button_children = [Text ''Save''], button_variant = None, button_size = None,
          button_disabled = Some True, button_onClick = Some (0::nat), button_type = None,
          button_className = None, button_loading = None\<rparr>)
     = Some (Flag True)
   \<and> dispatch Click
       (Button \<lparr>button_children = [Text ''Save''], button_variant = None, button_size = None,
          button_disabled = Some True, button_onClick = Some (0::nat), button_type = None,
          button_className = None, button_loading = None\<rparr>) = []"
  using Button_effective_disabled
    [of "\<lparr>button_children = [Text ''Save''], button_variant = None, button_size = None,
          button_disabled = Some True, button_onClick = Some (0::nat), button_type = None,
          button_className = None, button_loading = None\<rparr>"]
  by (simp add: dflt_def)


section \<open>Properties of Input\<close>

text \<open>
  C2. The render of Input takes the props and the random draw of the pass and nothing else:
  the component has no state slot. For every props record and every draw, the
  \<^verbatim>\<open>value\<close> attribute of the rendered field is the \<^verbatim>\<open>value\<close> prop, and a change event
  carrying the string \<open>v\<close> invokes \<^verbatim>\<open>onChange\<close> once, with \<open>v\<close>.
\<close>

theorem Input_controlled:
  "map_option (attr ''value'') (Input_field (Input p rnd)) = Some (Some (Str (input_value p)))
   \<and> map_option (dispatch (Change v)) (Input_field (Input p rnd))
       = Some [Invoke (input_onChange p) [v]]"
  by (simp add: Input_field_def Input_def Let_def when_str_def attr_def dispatch_def
        shouldPreventMouseEvent_def split: option.splits)

section \<open>Properties of Modal, Card and Alert\<close>

lemma Modal_closed: "\<not> modal_isOpen p \<Longrightarrow> Modal p = None"
  by (simp add: Modal_def Let_def)

lemma Modal_panel_open:
  "modal_isOpen p \<Longrightarrow>
   Modal_panel_children (Modal p) =
     when_bool (truthy (modal_title p) \<or> dflt True (modal_showCloseButton p))
       (Modal_header (modal_title p) (dflt True (modal_showCloseButton p)) (modal_onClose p))
     @ [Modal_content (modal_children p)]"
  by (simp add: Modal_def Let_def Modal_content_def)

lemma Modal_open_header:
  "modal_isOpen p \<Longrightarrow>
   Modal_has_header p = (truthy (modal_title p) \<or> dflt True (modal_showCloseButton p))"
  by (simp add: Modal_has_header_def Modal_panel_open when_bool_def)

text \<open>
  C3, as stated, fails: an open Modal whose \<^verbatim>\<open>title\<close> is set to the empty string and whose
  \<^verbatim>\<open>showCloseButton\<close> is false has a title that is set, and no header block: its panel holds
  the content block alone.
\<close>

theorem Modal_header_counterexample:
  "\<not> (Modal_has_header
         \<lparr>modal_isOpen = True, modal_onClose = (0::nat), modal_title = Some [],
          modal_children = [Text ''body''], modal_size = None,
          modal_showCloseButton = Some False\<rparr>
       = (modal_title
           \<lparr>modal_isOpen = True, modal_onClose = (0::nat), modal_title = Some [],
            modal_children = [Text ''body''], modal_size = None,
            modal_showCloseButton = Some False\<rparr> \<noteq> None
          \<or> dflt True (modal_showCloseButton
           \<lparr>modal_isOpen = True, modal_onClose = (0::nat), modal_title = Some [],
            modal_children = [Text ''body''], modal_size = None,
            modal_showCloseButton = Some False\<rparr>)))
   \<and> Modal_panel_children (Modal
         \<lparr>modal_isOpen = True, modal_onClose = (0::nat), modal_title = Some [],
          modal_children = [Text ''body''], modal_size = None,
          modal_showCloseButton = Some False\<rparr>)
       = [Modal_content [Text ''body'']]"
  by (simp add: Modal_open_header Modal_panel_open truthy_def dflt_def when_bool_def)

text \<open>
  C3, amended. A Modal with \<^verbatim>\<open>isOpen\<close> false renders \<^verbatim>\<open>null\<close>. A Modal with \<^verbatim>\<open>isOpen\<close>
  true renders a tree, and its panel has the header block exactly when \<^verbatim>\<open>title\<close> is a
  non-empty string or \<^verbatim>\<open>showCloseButton\<close> (true when omitted) is true; otherwise the panel
  holds the content block alone.
\<close>

theorem Modal_render:
  "(\<not> modal_isOpen p \<longrightarrow> Modal p = None)
   \<and> (modal_isOpen p \<longrightarrow>
        Modal p \<noteq> None
        \<and> Modal_has_header p = (truthy (modal_title p) \<or> dflt True (modal_showCloseButton p))
        \<and> (\<not> Modal_has_header p \<longrightarrow>
             Modal_panel_children (Modal p) = [Modal_content (modal_children p)]))"
proof (cases "modal_isOpen p")
  case False
  then show ?thesis by (simp add: Modal_closed)
next
  case True
  moreover from True have "Modal p \<noteq> None"
    by (simp add: Modal_def Let_def)
  ultimately show ?thesis
    by (simp add: Modal_open_header Modal_panel_open when_bool_def)
qed

theorem Modal_render_witness:
  "Modal \<lparr>modal_isOpen = False, modal_onClose = (0::nat), modal_title = Some ''Example Modal'',
          modal_children = [Text ''body''], modal_size = Some medium,
          modal_showCloseButton = None\<rparr> = None
   \<and> Modal_has_header
        \<lparr>modal_isOpen = True, modal_onClose = (0::nat), modal_title = Some ''Example Modal'',
         modal_children = [Text ''body''], modal_size = Some medium,
         modal_showCloseButton = Some False\<rparr>
   \<and> Modal_has_header
        \<lparr>modal_isOpen = True, modal_onClose = (0::nat), modal_title = None,
         modal_children = [Text ''body''], modal_size = Some medium,
         modal_showCloseButton = None\<rparr>
   \<and> Modal_panel_children (Modal
        \<lparr>modal_isOpen = True, modal_onClose = (0::nat), modal_title = None,
         modal_children = [Text ''body''], modal_size = Some medium,
         modal_showCloseButton = Some False\<rparr>) = [Modal_content [Text ''body'']]"
  using
    Modal_render [of "\<lparr>modal_isOpen = False, modal_onClose = (0::nat),
         modal_title = Some ''Example Modal'', modal_children = [Text ''body''],
         modal_size = Some medium, modal_showCloseButton = None\<rparr>"]
    Modal_render [of "\<lparr>modal_isOpen = True, modal_onClose = (0::nat),
         modal_title = Some ''Example Modal'', modal_children = [Text ''body''],
         modal_size = Some medium, modal_showCloseButton = Some False\<rparr>"]
    Modal_render [of "\<lparr>modal_isOpen = True, modal_onClose = (0::nat),
         modal_title = None, modal_children = [Text ''body''],
         modal_size = Some medium, modal_showCloseButton = None\<rparr>"]
    Modal_render [of "\<lparr>modal_isOpen = True, modal_onClose = (0::nat),
         modal_title = None, modal_children = [Text ''body''],
         modal_size = Some medium, modal_showCloseButton = Some False\<rparr>"]
  by (simp add: truthy_def dflt_def)

lemma Card_children:
  "children_of (Card p) =
     when_bool (truthy (card_title p) \<or> truthy (card_subtitle p))
       (Card_header (card_title p) (card_subtitle p)) @ card_children p"
  by (simp add: Card_def Let_def)

lemma Card_header_iff:
  "Card_has_header p = (truthy (card_title p) \<or> truthy (card_subtitle p))"
  by (simp add: Card_has_header_def Card_children when_bool_def)

lemma Alert_cells:
  "Alert_close_cells (Alert p)
     = (case alert_onClose p of None \<Rightarrow> [] | Some f \<Rightarrow> [Alert_close f])"
  by (simp add: Alert_close_cells_def Alert_def Let_def)

text \<open>
  C5, as stated, fails for Card: a Card given the empty string as \<^verbatim>\<open>title\<close> and no
  \<^verbatim>\<open>subtitle\<close> has a title provided, and renders no header block: its children are the
  caller's children alone.
\<close>

theorem Card_header_counterexample:
  "\<not> (Card_has_header
         \<lparr>card_children = [Text ''body''], card_title = Some [], card_subtitle = None,
          card_className = None, card_onClick = (None :: nat option), card_hoverable = None,
          card_padding = None\<rparr>
       = (card_title
           \<lparr>card_children = [Text ''body''], card_title = Some [], card_subtitle = None,
            card_className = None, card_onClick = (None :: nat option), card_hoverable = None,
            card_padding = None\<rparr> \<noteq> None
          \<or> card_subtitle
           \<lparr>card_children = [Text ''body''], card_title = Some [], card_subtitle = None,
            card_className = None, card_onClick = (None :: nat option), card_hoverable = None,
            card_padding = None\<rparr> \<noteq> None))
   \<and> children_of (Card
         \<lparr>card_children = [Text ''body''], card_title = Some [], card_subtitle = None,
          card_className = None, card_onClick = (None :: nat option), card_hoverable = None,
          card_padding = None\<rparr>) = [Text ''body'']"
  by (simp add: Card_header_iff Card_children truthy_def when_bool_def)

text \<open>
  C5, amended. A rendered Card has the header block exactly when \<^verbatim>\<open>title\<close> or
  \<^verbatim>\<open>subtitle\<close> is a non-empty string, and otherwise its children are the caller's children
  alone. A rendered Alert has a close cell, holding the button that calls \<^verbatim>\<open>onClose\<close>,
  exactly when \<^verbatim>\<open>onClose\<close> is provided, and otherwise nothing follows the body.
\<close>

theorem Card_Alert_presence:
  "Card_has_header p = (truthy (card_title p) \<or> truthy (card_subtitle p))
   \<and> children_of (Card p)
       = (if truthy (card_title p) \<or> truthy (card_subtitle p)
          then Card_header (card_title p) (card_subtitle p) # card_children p
          else card_children p)
   \<and> Alert_has_close q = (alert_onClose q \<noteq> None)
   \<and> Alert_close_cells (Alert q)
       = (case alert_onClose q of None \<Rightarrow> [] | Some f \<Rightarrow> [Alert_close f])"
  by (simp add: Card_header_iff Card_children when_bool_def Alert_has_close_def Alert_cells
        split: option.splits)


section \<open>Properties of Tooltip\<close>

lemma Tooltip_listeners:
  "attr ''onMouseEnter'' (Tooltip p s) = Some (Listener (SetIsVisible True))"
  "attr ''onMouseLeave'' (Tooltip p s) = Some (Listener (SetIsVisible False))"
  by (simp_all add: Tooltip_def Let_def attr_def)

lemma Tooltip_enter: "Tooltip_on p MouseEnter s = True"
  by (simp add: Tooltip_on_def Tooltip_def Let_def dispatch_def shouldPreventMouseEvent_def
        attr_def)

lemma Tooltip_leave: "Tooltip_on p MouseLeave s = False"
  by (simp add: Tooltip_on_def Tooltip_def Let_def dispatch_def shouldPreventMouseEvent_def
        attr_def)

lemma Tooltip_children:
  "children_of (Tooltip p s)
     = tooltip_children p
       @ when_bool s (Tooltip_bubble (tooltip_content p) (dflt pos_top (tooltip_position p)))"
  by (simp add: Tooltip_def Let_def)

lemma Tooltip_bubble_text: "concat (texts_of (Tooltip_bubble c pos)) = c"
  by (simp add: Tooltip_bubble_def text_child_def)

text \<open>
  C4. The state slot starts at false (HIDDEN), and the Tooltip then renders its children
  alone. A pointer-enter on the wrapper stores true (VISIBLE); rendered in that state, the
  Tooltip holds after its children exactly one bubble: the positioned \<^verbatim>\<open>absolute z-10\<close>
  block around the dark box that holds \<^verbatim>\<open>content\<close> and the arrow, and the text of the
  bubble is \<^verbatim>\<open>content\<close>. A pointer-leave then stores false (HIDDEN); rendered in that
  state, the Tooltip again holds its children and no bubble.
\<close>

theorem Tooltip_lifecycle:
  "Tooltip_initial = False
   \<and> children_of (Tooltip p Tooltip_initial) = tooltip_children p
   \<and> Tooltip_on p MouseEnter Tooltip_initial = True
   \<and> children_of (Tooltip p (Tooltip_on p MouseEnter Tooltip_initial))
       = tooltip_children p
         @ [Element ''div''
              [(''className'', Str (''absolute z-10 ''
                  @ Tooltip_positionClasses (dflt pos_top (tooltip_position p))))]
              [Element ''div''
                 [(''className'',
                   Str ''bg-gray-900 text-white text-sm rounded py-1 px-2 whitespace-nowrap'')]
                 ((if tooltip_content p = [] then [] else [Text (tooltip_content p)])
                  @ [Element ''div''
                       [(''className'', Str (''absolute w-0 h-0 border-4 border-transparent ''
                           @ Tooltip_arrowClasses (dflt pos_top (tooltip_position p))))]
                       []])]]
   \<and> concat (texts_of (last (children_of (Tooltip p (Tooltip_on p MouseEnter Tooltip_initial)))))
       = tooltip_content p
   \<and> Tooltip_on p MouseLeave (Tooltip_on p MouseEnter Tooltip_initial) = False
   \<and> children_of (Tooltip p (Tooltip_on p MouseLeave (Tooltip_on p MouseEnter Tooltip_initial)))
       = tooltip_children p"
proof -
  have shown: "children_of (Tooltip p True)
      = tooltip_children p
        @ [Tooltip_bubble (tooltip_content p) (dflt pos_top (tooltip_position p))]"
    and hidden: "children_of (Tooltip p False) = tooltip_children p"
    by (simp_all add: Tooltip_children when_bool_def)
  have bubble_text: "concat (texts_of (last (children_of (Tooltip p True)))) = tooltip_content p"
    by (simp only: shown last_snoc Tooltip_bubble_text)
  have tree: "Tooltip_bubble (tooltip_content p) (dflt pos_top (tooltip_position p))
      = Element ''div''
          [(''className'', Str (''absolute z-10 ''
              @ Tooltip_positionClasses (dflt pos_top (tooltip_position p))))]
          [Element ''div''
             [(''className'',
               Str ''bg-gray-900 text-white text-sm rounded py-1 px-2 whitespace-nowrap'')]
             ((if tooltip_content p = [] then [] else [Text (tooltip_content p)])
              @ [Element ''div''
                   [(''className'', Str (''absolute w-0 h-0 border-4 border-transparent ''
                       @ Tooltip_arrowClasses (dflt pos_top (tooltip_position p))))]
                   []])]"
    by (simp add: Tooltip_bubble_def text_child_def)
  show ?thesis
    unfolding Tooltip_enter Tooltip_leave
    using shown hidden bubble_text tree by (simp add: Tooltip_initial_def)
qed

theorem Tooltip_lifecycle_witness:
  "children_of (Tooltip
       \<lparr>tooltip_children = [Text ''Hover'' :: nat node],
        tooltip_content = ''This is a bottom tooltip'', tooltip_position = Some pos_bottom,
        tooltip_className = None\<rparr> Tooltip_initial)
     = [Text ''Hover'']
   \<and> children_of (Tooltip
       \<lparr>tooltip_children = [Text ''Hover'' :: nat node],
        tooltip_content = ''This is a bottom tooltip'', tooltip_position = Some pos_bottom,
        tooltip_className = None\<rparr>
       (Tooltip_on
          \<lparr>tooltip_children = [Text ''Hover'' :: nat node],
           tooltip_content = ''This is a bottom tooltip'', tooltip_position = Some pos_bottom,
           tooltip_className = None\<rparr> MouseEnter Tooltip_initial))
     = [Text ''Hover'',
        Element ''div''
          [(''className'', Str ''absolute z-10 top-full left-1/2 transform -translate-x-1/2 mt-2'')]
          [Element ''div''
             [(''className'',
               Str ''bg-gray-900 text-white text-sm rounded py-1 px-2 whitespace-nowrap'')]
             [Text ''This is a bottom tooltip'',
              Element ''div''
                [(''className'',
                  Str ''absolute w-0 h-0 border-4 border-transparent bottom-full left-1/2 transform -translate-x-1/2 border-b-gray-900'')]
                []]]]
   \<and> children_of (Tooltip
       \<lparr>tooltip_children = [Text ''Hover'' :: nat node],
        tooltip_content = ''This is a bottom tooltip'', tooltip_position = Some pos_bottom,
        tooltip_className = None\<rparr>
       (Tooltip_on
          \<lparr>tooltip_children = [Text ''Hover'' :: nat node],
           tooltip_content = ''This is a bottom tooltip'', tooltip_position = Some pos_bottom,
           tooltip_className = None\<rparr> MouseLeave
          (Tooltip_on
             \<lparr>tooltip_children = [Text ''Hover'' :: nat node],
              tooltip_content = ''This is a bottom tooltip'', tooltip_position = Some pos_bottom,
              tooltip_className = None\<rparr> MouseEnter Tooltip_initial)))
     = [Text ''Hover'']"
  using Tooltip_lifecycle
    [of "\<lparr>tooltip_children = [Text ''Hover'' :: nat node],
          tooltip_content = ''This is a bottom tooltip'', tooltip_position = Some pos_bottom,
          tooltip_className = None\<rparr>"]
  by (simp add: dflt_def Tooltip_enter Tooltip_leave Tooltip_initial_def)

text \<open>
  C10. The two listeners of the wrapper store a constant: pointer-enter stores true and
  pointer-leave stores false, whatever the state was. So a pointer-enter while VISIBLE
  leaves the state VISIBLE, a pointer-leave while HIDDEN leaves it HIDDEN, and repeating
  either event changes nothing.
\<close>

theorem Tooltip_idempotent:
  "attr ''onMouseEnter'' (Tooltip p s) = Some (Listener (SetIsVisible True))
   \<and> attr ''onMouseLeave'' (Tooltip p s) = Some (Listener (SetIsVisible False))
   \<and> Tooltip_on p MouseEnter True = True
   \<and> Tooltip_on p MouseLeave False = False
   \<and> Tooltip_on p MouseEnter (Tooltip_on p MouseEnter s) = Tooltip_on p MouseEnter s
   \<and> Tooltip_on p MouseLeave (Tooltip_on p MouseLeave s) = Tooltip_on p MouseLeave s"
  by (simp add: Tooltip_listeners Tooltip_enter Tooltip_leave)

section \<open>The loading Button\<close>

lemma Button_loading_text: "texts_of Button_loadingContent = [''Loading...'']"
  by (simp add: Button_loadingContent_def)

text \<open>
  C6. Whenever \<^verbatim>\<open>loading\<close> is true, the Button's only child is the loading block, a
  spinning indicator followed by the text \<^verbatim>\<open>Loading...\<close>, whatever the \<^verbatim>\<open>children\<close> prop is,
  and a click on the control invokes no callback. The witness is the scenario
  \<^verbatim>\<open>Button({variant:"danger", size:"large", loading:true})\<close> with a click handler and a
  label attached.
\<close>

theorem Button_loading:
  assumes "button_loading p = Some True"
  shows "children_of (Button p) = [Button_loadingContent]
         \<and> concat (map texts_of (children_of (Button p))) = [''Loading...'']
         \<and> attr ''disabled'' (Button p) = Some (Flag True)
         \<and> dispatch Click (Button p) = []"
proof -
  from assms have l: "dflt False (button_loading p)"
    by (simp add: dflt_def)
  then have "children_of (Button p) = [Button_loadingContent]"
    by (simp add: Button_def Let_def)
  with l show ?thesis
    by (simp add: Button_loading_text Button_disabled_attr dispatch_def Button_click_prevented)
qed

theorem Button_loading_witness:
  "children_of
       (Button \<lparr>button_children = [Text ''Delete''], button_variant = Some btn_danger,
          button_size = Some large, button_disabled = None, button_onClick = Some (0::nat),
          button_type = None, button_className = None, button_loading = Some True\<rparr>)
     = [Element ''div'' [(''className'', Str ''flex items-center justify-center'')]
          [Element ''div''
             [(''className'', Str ''animate-spin rounded-full h-4 w-4 border-b-2 border-white mr-2'')]
             [],
           Text ''Loading...'']]
   \<and> dispatch Click
       (Button \<lparr>button_children = [Text ''Delete''], button_variant = Some btn_danger,
          button_size = Some large, button_disabled = None, button_onClick = Some (0::nat),
          button_type = None, button_className = None, button_loading = Some True\<rparr>) = []"
  using Button_loading
    [of "\<lparr>button_children = [Text ''Delete''], button_variant = Some btn_danger,
          button_size = Some large, button_disabled = None, button_onClick = Some (0::nat),
          button_type = None, button_className = None, button_loading = Some True\<rparr>"]
  by (simp add: Button_loadingContent_def)


section \<open>The icon of Alert\<close>

lemma Alert_icon_rendered:
  "Alert_rendered_icon (Alert p) = Some (Alert_icon (dflt alert_info (alert_type p)))"
  by (simp add: Alert_rendered_icon_def Alert_def Let_def)

lemma Alert_glyph_const:
  "icon_glyph (Alert_rendered_icon (Alert p)) = icon_glyph (Alert_rendered_icon (Alert q))"
  by (simp add: Alert_icon_rendered icon_glyph_def Alert_icon_def)

lemma Alert_icon_class_inj:
  "(class_of (Alert_icon t) = class_of (Alert_icon t')) = (t = t')"
  by (cases t; cases t') (simp_all add: class_of_def attr_def Alert_icon_def)

text \<open>
  C8, as stated, fails: an Alert of type \<^verbatim>\<open>info\<close> and an Alert of type \<^verbatim>\<open>error\<close>
  render icons that draw the same path; only the colour class differs.
\<close>

theorem Alert_icon_counterexample:
  "\<not> (icon_glyph (Alert_rendered_icon (Alert
         \<lparr>alert_children = [Text ''msg''], alert_type = Some alert_info, alert_title = None,
          alert_onClose = (None :: nat option), alert_className = None\<rparr>))
       \<noteq> icon_glyph (Alert_rendered_icon (Alert
         \<lparr>alert_children = [Text ''msg''], alert_type = Some alert_error, alert_title = None,
          alert_onClose = (None :: nat option), alert_className = None\<rparr>)))"
  using Alert_glyph_const by blast

text \<open>
  C8, amended. For every Alert render call the rendered icon draws the same glyph whatever
  \<^verbatim>\<open>type\<close> is; \<^verbatim>\<open>type\<close> (\<^verbatim>\<open>info\<close> when omitted) selects the icon's colour class, and
  two render calls give the icon the same colour class exactly when their types are equal.
\<close>

theorem Alert_icon_by_type:
  "Alert_rendered_icon (Alert p) = Some (Alert_icon (dflt alert_info (alert_type p)))
   \<and> icon_glyph (Alert_rendered_icon (Alert p)) = icon_glyph (Alert_rendered_icon (Alert q))
   \<and> class_of (Alert_icon t) = ''h-5 w-5 '' @ Alert_iconClasses t
   \<and> (map_option class_of (Alert_rendered_icon (Alert p))
        = map_option class_of (Alert_rendered_icon (Alert q)))
       = (dflt alert_info (alert_type p) = dflt alert_info (alert_type q))"
proof -
  have "class_of (Alert_icon t) = ''h-5 w-5 '' @ Alert_iconClasses t"
    by (simp add: class_of_def attr_def Alert_icon_def)
  moreover have "(map_option class_of (Alert_rendered_icon (Alert p))
        = map_option class_of (Alert_rendered_icon (Alert q)))
       = (dflt alert_info (alert_type p) = dflt alert_info (alert_type q))"
    by (simp add: Alert_icon_rendered Alert_icon_class_inj)
  ultimately show ?thesis
    using Alert_icon_rendered [of p] Alert_glyph_const [of p q] by simp
qed

section \<open>Render passes and the random draw\<close>

lemma render_without_draw: "\<not> reads_random c \<Longrightarrow> render c r1 = render c r2"
  by (cases c) (simp_all add: Input_def Let_def str_or_def truthy_def split: option.splits)

lemma render_with_draw: "reads_random c \<Longrightarrow> (render c r1 = render c r2) = (r1 = r2)"
  by (cases c) (auto simp add: Input_def Let_def str_or_def truthy_def split: option.splits)

text \<open>
  C7, as stated, fails for Input: with \<^verbatim>\<open>id\<close> omitted, two render calls with the same props
  whose draws are \<^verbatim>\<open>i\<close> and \<^verbatim>\<open>9\<close> (\<^verbatim>\<open>Math.random()\<close> returning 0.5, then 0.25)
  produce different output, the identifier being \<^verbatim>\<open>input-i\<close> in one and \<^verbatim>\<open>input-9\<close> in
  the other.
\<close>

theorem render_deterministic_counterexample:
  "\<not> (render (C_Input
         \<lparr>input_label = Some ''Email Address'', input_placeholder = None, input_value = ''a'',
          input_onChange = (0::nat), input_type = None, input_error = None,
          input_disabled = None, input_required = None, input_className = None,
          input_id = None\<rparr>) ''i''
       = render (C_Input
         \<lparr>input_label = Some ''Email Address'', input_placeholder = None, input_value = ''a'',
          input_onChange = (0::nat), input_type = None, input_error = None,
          input_disabled = None, input_required = None, input_className = None,
          input_id = None\<rparr>) ''9'')"
  by (simp add: Input_def Let_def str_or_def when_str_def)

text \<open>
  C7, amended. Two render calls of a component with the same props and state snapshot
  produce identical output, except for an Input whose \<^verbatim>\<open>id\<close> is omitted or empty: its
  identifier is drawn at random in every render call, and two of its render calls produce
  identical output exactly when their draws are equal.
\<close>

theorem render_deterministic:
  "(\<not> reads_random c \<longrightarrow> render c r1 = render c r2)
   \<and> (reads_random c \<longrightarrow> (render c r1 = render c r2) = (r1 = r2))"
  using render_without_draw [of c r1 r2] render_with_draw [of c r1 r2] by blast

theorem render_deterministic_witness:
  "render (C_Input
       \<lparr>input_label = Some ''Email Address'', input_placeholder = None, input_value = ''a'',
        input_onChange = (0::nat), input_type = None, input_error = None,
        input_disabled = None, input_required = None, input_className = None,
        input_id = Some ''email''\<rparr>) ''i''
     = render (C_Input
       \<lparr>input_label = Some ''Email Address'', input_placeholder = None, input_value = ''a'',
        input_onChange = (0::nat), input_type = None, input_error = None,
        input_disabled = None, input_required = None, input_className = None,
        input_id = Some ''email''\<rparr>) ''9''
   \<and> render (C_Tooltip
       \<lparr>tooltip_children = [Text ''x''], tooltip_content = ''tip'', tooltip_position = None,
        tooltip_className = (None :: string option)\<rparr> True :: nat component) ''i''
     = render (C_Tooltip
       \<lparr>tooltip_children = [Text ''x''], tooltip_content = ''tip'', tooltip_position = None,
        tooltip_className = None\<rparr> True) ''9''
   \<and> render (C_Input
       \<lparr>input_label = None, input_placeholder = None, input_value = ''a'',
        input_onChange = (0::nat), input_type = None, input_error = None,
        input_disabled = None, input_required = None, input_className = None,
        input_id = None\<rparr>) ''i''
     \<noteq> render (C_Input
       \<lparr>input_label = None, input_placeholder = None, input_value = ''a'',
        input_onChange = (0::nat), input_type = None, input_error = None,
        input_disabled = None, input_required = None, input_className = None,
        input_id = None\<rparr>) ''9''"
  using
    render_deterministic [of "C_Input
       \<lparr>input_label = Some ''Email Address'', input_placeholder = None, input_value = ''a'',
        input_onChange = (0::nat), input_type = None, input_error = None,
        input_disabled = None, input_required = None, input_className = None,
        input_id = Some ''email''\<rparr>" "''i''" "''9''"]
    render_deterministic [of "C_Tooltip
       \<lparr>tooltip_children = [Text ''x''], tooltip_content = ''tip'', tooltip_position = None,
        tooltip_className = None\<rparr> True :: nat component" "''i''" "''9''"]
    render_deterministic [of "C_Input
       \<lparr>input_label = None, input_placeholder = None, input_value = ''a'',
        input_onChange = (0::nat), input_type = None, input_error = None,
        input_disabled = None, input_required = None, input_className = None,
        input_id = None\<rparr>" "''i''" "''9''"]
  by (simp add: truthy_def)


section \<open>The class string of Button\<close>

lemma Button_class:
  "class_of (Button p) =
     Button_baseClasses @ '' '' @ Button_variantClasses (dflt btn_primary (button_variant p)) @ '' ''
       @ Button_sizeClasses (dflt medium (button_size p)) @ '' ''
       @ Button_disabledClasses (dflt False (button_disabled p)) (dflt False (button_loading p))
       @ '' '' @ dflt [] (button_className p)"
  by (simp add: class_of_def attr_def Button_def Let_def)

text \<open>
  No table entry of the component contains the disabled-styling token, and none ends with
  a beginning of it: in the class string of an enabled Button the token can only come from
  the caller's \<^verbatim>\<open>className\<close>.
\<close>

lemma disabled_token_absent:
  assumes "\<not> sublist ''opacity-50 cursor-not-allowed'' cn"
  shows "\<not> sublist ''opacity-50 cursor-not-allowed''
           (Button_baseClasses @ '' '' @ Button_variantClasses v @ '' '' @ Button_sizeClasses s @ '' ''
              @ ''cursor-pointer'' @ '' '' @ cn)"
  using assms
  by (cases v; cases s) (simp_all add: Button_baseClasses_def sublist_Cons_right)

lemma token_present: "sublist tok (a @ b @ c @ d @ e @ f @ tok @ g)"
proof -
  have "a @ b @ c @ d @ e @ f @ tok @ g = (a @ b @ c @ d @ e @ f) @ tok @ g"
    by simp
  then show ?thesis
    by (simp only: sublist_appendI)
qed

text \<open>
  C9, as stated, fails: an enabled Button whose \<^verbatim>\<open>className\<close> prop is
  \<^verbatim>\<open>opacity-50 cursor-not-allowed\<close> has the disabled-styling token in its class string, and
  its \<^verbatim>\<open>disabled\<close> attribute is false.
\<close>

theorem Button_disabled_styling_counterexample:
  "\<not> (sublist ''opacity-50 cursor-not-allowed''
         (class_of (Button
            \<lparr>button_children = [Text ''Save''], button_variant = None, button_size = None,
             button_disabled = None, button_onClick = (None :: nat option), button_type = None,
             button_className = Some ''opacity-50 cursor-not-allowed'',
             button_loading = None\<rparr>))
       = (attr ''disabled'' (Button
            \<lparr>button_children = [Text ''Save''], button_variant = None, button_size = None,
             button_disabled = None, button_onClick = (None :: nat option), button_type = None,
             button_className = Some ''opacity-50 cursor-not-allowed'',
             button_loading = None\<rparr>) = Some (Flag True)))"
proof -
  have "sublist ''opacity-50 cursor-not-allowed''
         (class_of (Button
            \<lparr>button_children = [Text ''Save''], button_variant = None, button_size = None,
             button_disabled = None, button_onClick = (None :: nat option), button_type = None,
             button_className = Some ''opacity-50 cursor-not-allowed'',
             button_loading = None\<rparr>))"
    by (simp add: Button_class dflt_def Button_baseClasses_def Button_disabledClasses_def
          sublist_Cons_right)
  then show ?thesis
    by (simp add: Button_disabled_attr dflt_def)
qed

lemma token_in_className: "sublist tok cn \<Longrightarrow> sublist tok (a @ b @ c @ d @ e @ f @ g @ h @ cn)"
proof -
  assume "sublist tok cn"
  then have "sublist tok ((a @ b @ c @ d @ e @ f @ g @ h) @ cn)"
    by (simp only: sublist_append) simp
  then show ?thesis
    by simp
qed

text \<open>
  C9, amended. For every Button render call, the rendered class string contains
  \<^verbatim>\<open>opacity-50 cursor-not-allowed\<close> if and only if the rendered control's \<^verbatim>\<open>disabled\<close>
  attribute is true (that is, \<^verbatim>\<open>disabled || loading\<close>) or the caller's \<^verbatim>\<open>className\<close> prop
  itself contains that token; and whenever the attribute is not true the class string
  contains \<^verbatim>\<open>cursor-pointer\<close>. So a disabled control always carries the token, an enabled
  one always carries \<^verbatim>\<open>cursor-pointer\<close>, and an enabled one carries the token only when
  the caller passed it in.
\<close>

theorem Button_disabled_styling:
  "attr ''disabled'' (Button p)
     = Some (Flag (dflt False (button_disabled p) \<or> dflt False (button_loading p)))
   \<and> sublist ''opacity-50 cursor-not-allowed'' (class_of (Button p))
       = (attr ''disabled'' (Button p) = Some (Flag True)
          \<or> sublist ''opacity-50 cursor-not-allowed'' (dflt [] (button_className p)))
   \<and> (attr ''disabled'' (Button p) \<noteq> Some (Flag True)
        \<longrightarrow> sublist ''cursor-pointer'' (class_of (Button p)))"
proof (cases "dflt False (button_disabled p) \<or> dflt False (button_loading p)")
  case True
  then have "Button_disabledClasses (dflt False (button_disabled p)) (dflt False (button_loading p))
      = ''opacity-50 cursor-not-allowed''"
    by (simp add: Button_disabledClasses_def)
  then have "sublist ''opacity-50 cursor-not-allowed'' (class_of (Button p))"
    by (simp only: Button_class token_present)
  with True show ?thesis
    by (simp add: Button_disabled_attr)
next
  case False
  then have d: "Button_disabledClasses (dflt False (button_disabled p)) (dflt False (button_loading p))
      = ''cursor-pointer''"
    by (simp add: Button_disabledClasses_def)
  then have pointer: "sublist ''cursor-pointer'' (class_of (Button p))"
    by (simp only: Button_class token_present)
  have "sublist ''opacity-50 cursor-not-allowed'' (class_of (Button p))
      = sublist ''opacity-50 cursor-not-allowed'' (dflt [] (button_className p))"
  proof (cases "sublist ''opacity-50 cursor-not-allowed'' (dflt [] (button_className p))")
    case True
    then have "sublist ''opacity-50 cursor-not-allowed'' (class_of (Button p))"
      unfolding Button_class by (rule token_in_className)
    with True show ?thesis
      by simp
  next
    case False
    then have "\<not> sublist ''opacity-50 cursor-not-allowed'' (class_of (Button p))"
      unfolding Button_class d by (rule disabled_token_absent)
    with False show ?thesis
      by simp
  qed
  with pointer False show ?thesis
    by (simp add: Button_disabled_attr)
qed

theorem Button_disabled_styling_witness:
  "sublist ''opacity-50 cursor-not-allowed''
       (class_of (Button
          \<lparr>button_children = [Text ''Save''], button_variant = None, button_size = None,
           button_disabled = Some True, button_onClick = (None :: nat option),
           button_type = None, button_className = Some ''cursor-pointer'',
           button_loading = None\<rparr>))
   \<and> \<not> sublist ''opacity-50 cursor-not-allowed''
       (class_of (Button
          \<lparr>button_children = [Text ''Save''], button_variant = None, button_size = None,
           button_disabled = None, button_onClick = (None :: nat option),
           button_type = None, button_className = Some ''w-full'', button_loading = None\<rparr>))
   \<and> sublist ''cursor-pointer''
       (class_of (Button
          \<lparr>button_children = [Text ''Save''], button_variant = None, button_size = None,
           button_disabled = None, button_onClick = (None :: nat option),
           button_type = None, button_className = Some ''w-full'', button_loading = None\<rparr>))
   \<and> sublist ''cursor-pointer''
       (class_of (Button
          \<lparr>button_children = [Text ''Save''], button_variant = None, button_size = None,
           button_disabled = None, button_onClick = (None :: nat option),
           button_type = None, button_className = Some ''opacity-50 cursor-not-allowed'',
           button_loading = None\<rparr>))"
  using
    Button_disabled_styling
      [of "\<lparr>button_children = [Text ''Save''], button_variant = None, button_size = None,
           button_disabled = Some True, button_onClick = (None :: nat option),
           button_type = None, button_className = Some ''cursor-pointer'',
           button_loading = None\<rparr>"]
    Button_disabled_styling
      [of "\<lparr>button_children = [Text ''Save''], button_variant = None, button_size = None,
           button_disabled = None, button_onClick = (None :: nat option),
           button_type = None, button_className = Some ''w-full'', button_loading = None\<rparr>"]
    Button_disabled_styling
      [of "\<lparr>button_children = [Text ''Save''], button_variant = None, button_size = None,
           button_disabled = None, button_onClick = (None :: nat option),
           button_type = None, button_className = Some ''opacity-50 cursor-not-allowed'',
           button_loading = None\<rparr>"]
  by (simp add: dflt_def sublist_Cons_right)

end
